theory Spec2Isabelle
  imports Complex_Main
begin

section \<open>JavaScript numbers\<close>

text \<open>
  A JavaScript \<^verbatim>\<open>number\<close> is a finite value, one of the two infinities, or NaN.
  The finite values are taken as real numbers: rounding, overflow to an infinity,
  underflow and the sign of zero are not modelled. Everything the code decides with
  \<^verbatim>\<open>Number.isFinite\<close>, with \<^verbatim>\<open>=== 0\<close> or with a comparison against NaN is modelled
  as ECMAScript defines it.
\<close>

datatype jsnum = Fin real | PInf | NInf | NaN

fun isFinite :: "jsnum \<Rightarrow> bool" where
  "isFinite (Fin _) = True"
| "isFinite _ = False"

fun jneg :: "jsnum \<Rightarrow> jsnum" where
  "jneg (Fin a) = Fin (- a)"
| "jneg PInf = NInf"
| "jneg NInf = PInf"
| "jneg NaN = NaN"

fun jadd :: "jsnum \<Rightarrow> jsnum \<Rightarrow> jsnum" where
  "jadd NaN _ = NaN"
| "jadd _ NaN = NaN"
| "jadd (Fin a) (Fin b) = Fin (a + b)"
| "jadd PInf NInf = NaN"
| "jadd NInf PInf = NaN"
| "jadd PInf _ = PInf"
| "jadd _ PInf = PInf"
| "jadd NInf _ = NInf"
| "jadd _ NInf = NInf"

definition jsub :: "jsnum \<Rightarrow> jsnum \<Rightarrow> jsnum" where
  "jsub a b = jadd a (jneg b)"

text \<open>The sign of an infinite product or quotient: \<open>True\<close> is positive.\<close>

definition jinf :: "bool \<Rightarrow> jsnum" where
  "jinf pos = (if pos then PInf else NInf)"

fun jmul :: "jsnum \<Rightarrow> jsnum \<Rightarrow> jsnum" where
  "jmul NaN _ = NaN"
| "jmul _ NaN = NaN"
| "jmul (Fin a) (Fin b) = Fin (a * b)"
| "jmul (Fin a) PInf = (if a = 0 then NaN else jinf (0 < a))"
| "jmul (Fin a) NInf = (if a = 0 then NaN else jinf (a < 0))"
| "jmul PInf (Fin b) = (if b = 0 then NaN else jinf (0 < b))"
| "jmul NInf (Fin b) = (if b = 0 then NaN else jinf (b < 0))"
| "jmul PInf PInf = PInf"
| "jmul NInf NInf = PInf"
| "jmul PInf NInf = NInf"
| "jmul NInf PInf = NInf"

text \<open>
  Division. A finite value divided by zero is an infinity (NaN for \<open>0 / 0\<close>); the zero
  divisor is taken as positive, since the sign of zero is not modelled.
\<close>

fun jdiv :: "jsnum \<Rightarrow> jsnum \<Rightarrow> jsnum" where
  "jdiv NaN _ = NaN"
| "jdiv _ NaN = NaN"
| "jdiv (Fin a) (Fin b) =
     (if b = 0 then (if a = 0 then NaN else jinf (0 < a)) else Fin (a / b))"
| "jdiv (Fin a) PInf = Fin 0"
| "jdiv (Fin a) NInf = Fin 0"
| "jdiv PInf (Fin b) = jinf (0 \<le> b)"
| "jdiv NInf (Fin b) = jinf (b < 0)"
| "jdiv PInf PInf = NaN"
| "jdiv PInf NInf = NaN"
| "jdiv NInf PInf = NaN"
| "jdiv NInf NInf = NaN"

text \<open>\<^verbatim>\<open>a < b\<close>: false as soon as one side is NaN.\<close>

fun jlt :: "jsnum \<Rightarrow> jsnum \<Rightarrow> bool" where
  "jlt NaN _ = False"
| "jlt _ NaN = False"
| "jlt (Fin a) (Fin b) = (a < b)"
| "jlt (Fin a) PInf = True"
| "jlt (Fin a) NInf = False"
| "jlt PInf _ = False"
| "jlt NInf NInf = False"
| "jlt NInf _ = True"

definition jgt :: "jsnum \<Rightarrow> jsnum \<Rightarrow> bool" where
  "jgt a b = jlt b a"

text \<open>\<^verbatim>\<open>a === b\<close> on numbers: NaN is equal to nothing, itself included.\<close>

definition jseq :: "jsnum \<Rightarrow> jsnum \<Rightarrow> bool" where
  "jseq a b = (a \<noteq> NaN \<and> a = b)"

text \<open>
  \<^verbatim>\<open>Math.hypot(dx, dy)\<close>: an infinite argument gives \<open>+Infinity\<close> (also beside a NaN),
  otherwise a NaN argument gives NaN, otherwise the square root of the sum of squares.
\<close>

definition isInf :: "jsnum \<Rightarrow> bool" where
  "isInf a = (a = PInf \<or> a = NInf)"

fun hypot :: "jsnum \<Rightarrow> jsnum \<Rightarrow> jsnum" where
  "hypot (Fin dx) (Fin dy) = Fin (sqrt (dx\<^sup>2 + dy\<^sup>2))"
| "hypot a b = (if isInf a \<or> isInf b then PInf else NaN)"

section \<open>Landmarks\<close>

text \<open>
  A landmark object as it arrives at run time: each coordinate is a number or a value
  of another type (\<^verbatim>\<open>typeof lm.x !== 'number'\<close>). The optional \<^verbatim>\<open>z\<close> is never read.
\<close>

datatype jsval = Num jsnum | NotNum

datatype FaceLandmark = FaceLandmark (lm_x: jsval) (lm_y: jsval)

text \<open>
  \<^verbatim>\<open>FaceLandmarks\<close>: \<open>None\<close> is a value that is null, undefined or not an array; an
  entry of the array that is \<open>None\<close> is a null or undefined element. An index past the
  end of a JavaScript array reads as undefined.
\<close>

type_synonym FaceLandmarks = "FaceLandmark option list option"

text \<open>\<^verbatim>\<open>Pt\<close>: a landmark whose two coordinates have passed the \<^verbatim>\<open>typeof\<close> check.\<close>

datatype Pt = Pt (pt_x: jsnum) (pt_y: jsnum)

definition LEFT_EYE_POINTS :: "nat list" where
  "LEFT_EYE_POINTS = [33, 160, 158, 133, 153, 144]"

definition RIGHT_EYE_POINTS :: "nat list" where
  "RIGHT_EYE_POINTS = [263, 387, 385, 362, 380, 373]"

definition MOUTH_POINTS :: "nat list" where
  "MOUTH_POINTS = [13, 14, 78, 308, 82, 312, 87, 317]"

definition EAR_THRESHOLD :: jsnum where
  "EAR_THRESHOLD = Fin 0.41"

definition MAR_THRESHOLD :: jsnum where
  "MAR_THRESHOLD = Fin 0.80"

definition EAR_CALIBRATION_FACTOR :: jsnum where
  "EAR_CALIBRATION_FACTOR = Fin 0.75"

definition MAR_CALIBRATION_FACTOR :: jsnum where
  "MAR_CALIBRATION_FACTOR = Fin 1.40"

section \<open>Metric calculator\<close>

definition dist2D :: "Pt \<Rightarrow> Pt \<Rightarrow> jsnum" where
  "dist2D a b =
     (let dx = jsub (pt_x a) (pt_x b);
          dy = jsub (pt_y a) (pt_y b)
      in hypot dx dy)"

definition getLM :: "FaceLandmarks \<Rightarrow> nat \<Rightarrow> Pt option" where
  "getLM landmarks idx =
     (case landmarks of
        None \<Rightarrow> None
      | Some arr \<Rightarrow>
          (case (if idx < length arr then arr ! idx else None) of
             None \<Rightarrow> None
           | Some lm \<Rightarrow>
               (case (lm_x lm, lm_y lm) of
                  (Num a, Num b) \<Rightarrow> Some (Pt a b)
                | _ \<Rightarrow> None)))"

text \<open>
  \<^verbatim>\<open>p.some(v => v === null)\<close> rejects the frame as soon as one entry is null; past it
  every entry is a point (\<open>those\<close> gives the list of points, or \<open>None\<close> when an entry
  is \<open>None\<close>). The array pattern \<^verbatim>\<open>[p1, p2, p3, p4, p5, p6] = p\<close> takes the first six
  entries, and the length check before it leaves no shorter list.
\<close>

definition calcEARFromEye :: "FaceLandmarks \<Rightarrow> nat list \<Rightarrow> jsnum" where
  "calcEARFromEye landmarks eyeIndices =
     (if length eyeIndices < 6 then NaN
      else
        (case those (map (getLM landmarks) eyeIndices) of
           None \<Rightarrow> NaN
         | Some p \<Rightarrow>
             (case p of
                p1 # p2 # p3 # p4 # p5 # p6 # _ \<Rightarrow>
                  (let vert1 = dist2D p2 p6;
                       vert2 = dist2D p3 p5;
                       horiz = dist2D p1 p4
                   in if jseq horiz (Fin 0) then NaN
                      else jdiv (jadd vert1 vert2) (jmul (Fin 2) horiz))
              | _ \<Rightarrow> NaN)))"

definition calcMARFromMouth :: "FaceLandmarks \<Rightarrow> nat list \<Rightarrow> jsnum" where
  "calcMARFromMouth landmarks mouthIndices =
     (if length mouthIndices < 8 then NaN
      else
        (case those (map (getLM landmarks) mouthIndices) of
           None \<Rightarrow> NaN
         | Some pts \<Rightarrow>
             (case pts of
                u1 # u2 # l1 # r1 # r2 # l2b # l3b # lCorner # _ \<Rightarrow>
                  (let leftCorner = lCorner;
                       rightCorner = r1;
                       mouthWidth = dist2D leftCorner rightCorner
                   in if jseq mouthWidth (Fin 0) then NaN
                      else
                        let v1 = dist2D u1 l1;
                            v2 = dist2D u2 l2b;
                            v3 = dist2D u1 l3b;
                            vertAvg = jdiv (jadd (jadd v1 v2) v3) (Fin 3)
                        in jdiv vertAvg mouthWidth)
              | _ \<Rightarrow> NaN)))"

definition calculateEAR :: "FaceLandmarks \<Rightarrow> nat list \<Rightarrow> jsnum" where
  "calculateEAR landmarks eyeIndices = calcEARFromEye landmarks eyeIndices"

definition calculateMAR :: "FaceLandmarks \<Rightarrow> nat list \<Rightarrow> jsnum" where
  "calculateMAR landmarks mouthIndices = calcMARFromMouth landmarks mouthIndices"

section \<open>Calibration accumulator and threshold provider\<close>

text \<open>
  The module variables \<^verbatim>\<open>earBaseline\<close>, \<^verbatim>\<open>marBaseline\<close> (a number or null) and
  \<^verbatim>\<open>calibrationSamples\<close>, passed explicitly. The counter only ever grows by one from
  zero and is a natural number here.
\<close>

record calibration =
  earBaseline :: "jsnum option"
  marBaseline :: "jsnum option"
  calibrationSamples :: nat

definition calibration_init :: calibration where
  "calibration_init = \<lparr>earBaseline = None, marBaseline = None, calibrationSamples = 0\<rparr>"

definition accumulateCalibration :: "FaceLandmarks \<Rightarrow> calibration \<Rightarrow> calibration" where
  "accumulateCalibration landmarks c =
     (let leftEAR = calcEARFromEye landmarks LEFT_EYE_POINTS;
          rightEAR = calcEARFromEye landmarks RIGHT_EYE_POINTS;
          ear = jdiv (jadd leftEAR rightEAR) (Fin 2);
          mar = calcMARFromMouth landmarks MOUTH_POINTS
      in if \<not> isFinite ear \<or> \<not> isFinite mar then c
         else
           let n = calibrationSamples c + 1 in
           \<lparr>earBaseline =
              Some (case earBaseline c of
                      None \<Rightarrow> ear
                    | Some b \<Rightarrow> jadd b (jdiv (jsub ear b) (Fin (real n)))),
            marBaseline =
              Some (case marBaseline c of
                      None \<Rightarrow> mar
                    | Some b \<Rightarrow> jadd b (jdiv (jsub mar b) (Fin (real n)))),
            calibrationSamples = n\<rparr>)"

text \<open>
  Names for what the body above computes: the average eye ratio and the mouth ratio of
  a frame, and the running-mean step \<^verbatim>\<open>b === null ? v : b + (v - b) / n\<close>.
\<close>

definition frame_ear :: "FaceLandmarks \<Rightarrow> jsnum" where
  "frame_ear landmarks =
     (let leftEAR = calcEARFromEye landmarks LEFT_EYE_POINTS;
          rightEAR = calcEARFromEye landmarks RIGHT_EYE_POINTS
      in jdiv (jadd leftEAR rightEAR) (Fin 2))"

definition frame_mar :: "FaceLandmarks \<Rightarrow> jsnum" where
  "frame_mar landmarks = calcMARFromMouth landmarks MOUTH_POINTS"

definition running_mean :: "jsnum option \<Rightarrow> jsnum \<Rightarrow> nat \<Rightarrow> jsnum" where
  "running_mean baseline v n =
     (case baseline of
        None \<Rightarrow> v
      | Some b \<Rightarrow> jadd b (jdiv (jsub v b) (Fin (real n))))"

definition resetCalibration :: "calibration \<Rightarrow> calibration" where
  "resetCalibration c = \<lparr>earBaseline = None, marBaseline = None, calibrationSamples = 0\<rparr>"

definition getCurrentEARThreshold :: "calibration \<Rightarrow> jsnum" where
  "getCurrentEARThreshold c =
     (case earBaseline c of
        Some b \<Rightarrow> if 5 \<le> calibrationSamples c then jmul b EAR_CALIBRATION_FACTOR
                  else EAR_THRESHOLD
      | None \<Rightarrow> EAR_THRESHOLD)"

definition getCurrentMARThreshold :: "calibration \<Rightarrow> jsnum" where
  "getCurrentMARThreshold c =
     (case marBaseline c of
        Some b \<Rightarrow> if 5 \<le> calibrationSamples c then jmul b MAR_CALIBRATION_FACTOR
                  else MAR_THRESHOLD
      | None \<Rightarrow> MAR_THRESHOLD)"

record DrowsinessFrameMetrics =
  m_ear :: jsnum
  m_mar :: jsnum
  isEyesClosed :: bool
  isYawn :: bool
  earThreshold :: jsnum
  marThreshold :: jsnum
  calibrated :: bool
  m_calibrationSamples :: nat

definition analyzeFrame :: "FaceLandmarks \<Rightarrow> calibration \<Rightarrow> DrowsinessFrameMetrics" where
  "analyzeFrame landmarks c =
     (let ear = calculateEAR landmarks LEFT_EYE_POINTS;
          mar = calculateMAR landmarks MOUTH_POINTS;
          earTh = getCurrentEARThreshold c;
          marTh = getCurrentMARThreshold c
      in \<lparr>m_ear = ear,
          m_mar = mar,
          isEyesClosed = (if isFinite ear then jlt ear earTh else False),
          isYawn = (if isFinite mar then jgt mar marTh else False),
          earThreshold = earTh,
          marThreshold = marTh,
          calibrated = (5 \<le> calibrationSamples c),
          m_calibrationSamples = calibrationSamples c\<rparr>)"

section \<open>The frame handler of the hook\<close>

text \<open>
  The state the \<^verbatim>\<open>onResults\<close> callback reads and writes: three refs of the hook,
  the two variables of the closure (\<^verbatim>\<open>calibrating\<close>, \<^verbatim>\<open>calibrationStart\<close>) and the
  calibration variables of the module. The two clocks are inputs of a step:
  \<^verbatim>\<open>Date.now()\<close> in whole milliseconds, \<^verbatim>\<open>performance.now()\<close> a finite number.
\<close>

record hook_state =
  isProcessing :: bool
  closedEyeStart :: "real option"
  openMouthStart :: "real option"
  calibrating :: bool
  calibrationStart :: int
  cal :: calibration

text \<open>
  \<^verbatim>\<open>results.multiFaceLandmarks\<close>: absent (\<open>None\<close>) or an array of faces. The three
  arguments of \<^verbatim>\<open>onDetection\<close> are the emission of a step.
\<close>

type_synonym results = "FaceLandmarks list option"

type_synonym detection = "string \<times> string \<times> bool"

definition onResults :: "results \<Rightarrow> int \<Rightarrow> real \<Rightarrow> hook_state \<Rightarrow> detection \<times> hook_state" where
  "onResults multiFaceLandmarks dateNow perfNow st0 =
     (let st = st0\<lparr>isProcessing := False\<rparr> in
      case multiFaceLandmarks of
        Some (landmarks # _) \<Rightarrow>
          if calibrating st then
            let st1 = st\<lparr>cal := accumulateCalibration landmarks (cal st)\<rparr>;
                st2 = (if dateNow - calibrationStart st1 > 2000
                       then st1\<lparr>calibrating := False\<rparr> else st1)
            in ((''Calibrating'', ''Calibrating'', False), st2)
          else
            let leftEAR = calculateEAR landmarks LEFT_EYE_POINTS;
                rightEAR = calculateEAR landmarks RIGHT_EYE_POINTS;
                mar = calculateMAR landmarks MOUTH_POINTS;
                avgEAR = jdiv (jadd leftEAR rightEAR) (Fin 2);
                earThreshold = getCurrentEARThreshold (cal st);
                marThreshold = getCurrentMARThreshold (cal st);
                eyesClosed = jlt avgEAR earThreshold;
                isYawning = jgt mar marThreshold;
                now = perfNow;
                st1 = (if eyesClosed
                       then (if closedEyeStart st = None
                             then st\<lparr>closedEyeStart := Some now\<rparr> else st)
                       else st\<lparr>closedEyeStart := None\<rparr>);
                st2 = (if isYawning
                       then (if openMouthStart st1 = None
                             then st1\<lparr>openMouthStart := Some now\<rparr> else st1)
                       else st1\<lparr>openMouthStart := None\<rparr>);
                drowsyDetected =
                  (case closedEyeStart st2 of None \<Rightarrow> False | Some t \<Rightarrow> now - t > 3000);
                yawnDetected =
                  (case openMouthStart st2 of None \<Rightarrow> False | Some t \<Rightarrow> now - t > 3000);
                eyeStatus = (if drowsyDetected then ''Drowsy'' else ''Active'');
                mouthStatus = (if yawnDetected then ''Yawning'' else ''Active'');
                alertRequired = (drowsyDetected \<or> yawnDetected)
            in ((eyeStatus, mouthStatus, alertRequired), st2)
      | _ \<Rightarrow> ((''Inactive'', ''Inactive'', False), st))"

text \<open>
  \<^verbatim>\<open>initializeMediaPipe\<close> opens a session: the closure starts with
  \<^verbatim>\<open>calibrating = true\<close> and \<^verbatim>\<open>calibrationStart = Date.now()\<close>; \<^verbatim>\<open>startDetection\<close> has
  reset the calibration just before. The refs keep what they held.
\<close>

definition startDetection :: "int \<Rightarrow> hook_state \<Rightarrow> hook_state" where
  "startDetection dateNow st =
     st\<lparr>cal := resetCalibration (cal st), calibrating := True, calibrationStart := dateNow\<rparr>"

text \<open>A run of the handler over the frames of a session, each with its two clock readings.\<close>

fun run :: "hook_state \<Rightarrow> (results \<times> int \<times> real) list \<Rightarrow> hook_state" where
  "run st [] = st"
| "run st ((r, d, t) # evs) = run (snd (onResults r d t st)) evs"

section \<open>States of the calibration\<close>

text \<open>
  The calibration variables are private to the module: only \<^verbatim>\<open>accumulateCalibration\<close>
  and \<^verbatim>\<open>resetCalibration\<close> write them. These are the states the program can be in.
\<close>

inductive cal_reachable :: "calibration \<Rightarrow> bool" where
  cal_start: "cal_reachable calibration_init"
| cal_accumulate: "cal_reachable c \<Longrightarrow> cal_reachable (accumulateCalibration landmarks c)"
| cal_reset: "cal_reachable c \<Longrightarrow> cal_reachable (resetCalibration c)"

text \<open>A baseline that is set is a finite number.\<close>

definition baselines_finite :: "calibration \<Rightarrow> bool" where
  "baselines_finite c =
     ((case earBaseline c of None \<Rightarrow> True | Some b \<Rightarrow> isFinite b) \<and>
      (case marBaseline c of None \<Rightarrow> True | Some b \<Rightarrow> isFinite b))"

text \<open>No sample yet, exactly when a baseline is null, and then both are.\<close>

definition cal_inv :: "calibration \<Rightarrow> bool" where
  "cal_inv c =
     ((calibrationSamples c = 0 \<longleftrightarrow> earBaseline c = None) \<and>
      (earBaseline c = None \<longleftrightarrow> marBaseline c = None))"

section \<open>A sample frame\<close>

text \<open>
  A frame of 478 landmarks used to instantiate the theorems below. Both eyes carry the
  six points \<open>(0,0)\<close>, \<open>(0.3,0.2)\<close>, \<open>(0.6,0.25)\<close>, \<open>(1,0)\<close>, \<open>(0.6,-0.25)\<close>,
  \<open>(0.3,-0.2)\<close>; the mouth is 1 wide and 0.3 open.
\<close>

definition lm :: "real \<Rightarrow> real \<Rightarrow> FaceLandmark option" where
  "lm a b = Some (FaceLandmark (Num (Fin a)) (Num (Fin b)))"

definition sample_point :: "nat \<Rightarrow> FaceLandmark option" where
  "sample_point i =
     (if i = 33 \<or> i = 263 then lm 0 0
      else if i = 160 \<or> i = 387 then lm 0.3 0.2
      else if i = 158 \<or> i = 385 then lm 0.6 0.25
      else if i = 133 \<or> i = 362 then lm 1 0
      else if i = 153 \<or> i = 380 then lm 0.6 (- 0.25)
      else if i = 144 \<or> i = 373 then lm 0.3 (- 0.2)
      else if i = 13 \<or> i = 14 then lm 0.5 0
      else if i = 78 \<or> i = 312 \<or> i = 87 then lm 0.5 0.3
      else if i = 308 then lm 1 0
      else lm 0 0)"

definition sample_frame :: FaceLandmarks where
  "sample_frame = Some (map sample_point [0..<478])"

text \<open>A degenerate frame: all 478 landmarks at the origin.\<close>

definition flat_frame :: FaceLandmarks where
  "flat_frame = Some (replicate 478 (lm 0 0))"

text \<open>The calibration after five copies of the sample frame.\<close>

definition sample_cal :: calibration where
  "sample_cal =
     \<lparr>earBaseline = Some (Fin 0.45), marBaseline = Some (Fin 0.3), calibrationSamples = 5\<rparr>"

text \<open>
  A frame whose mouth ratio is \<open>+Infinity\<close>: the sample frame with the \<open>x\<close> of landmark
  13 infinite.
\<close>

definition inf_frame :: FaceLandmarks where
  "inf_frame =
     Some ((map sample_point [0..<478])[13 := Some (FaceLandmark (Num PInf) (Num (Fin 0)))])"

text \<open>
  A state of the hook in the detection phase, calibrated to the thresholds 0.75 (eyes)
  and 0.14 (mouth), with the eyes closed since time 1000.
\<close>

definition sample_state :: hook_state where
  "sample_state =
     \<lparr>isProcessing = True, closedEyeStart = Some 1000, openMouthStart = None,
      calibrating = False, calibrationStart = 0,
      cal = \<lparr>earBaseline = Some (Fin 1), marBaseline = Some (Fin 0.1), calibrationSamples = 5\<rparr>\<rparr>"

text \<open>A ratio of distances is never negative: it is NaN, \<open>+Infinity\<close> or at least 0.\<close>

definition nonneg :: "jsnum \<Rightarrow> bool" where
  "nonneg a = (case a of Fin v \<Rightarrow> 0 \<le> v | NInf \<Rightarrow> False | _ \<Rightarrow> True)"

section \<open>Properties of the metric calculator\<close>

lemma those_map_None:
  "those (map f xs) = None \<longleftrightarrow> (\<exists>x\<in>set xs. f x = None)"
  by (induction xs) (auto split: option.splits)

lemma getLM_None_iff:
  "getLM L i = None \<longleftrightarrow>
     (case L of None \<Rightarrow> True
      | Some arr \<Rightarrow> length arr \<le> i \<or> arr ! i = None
          \<or> (\<exists>lm. arr ! i = Some lm \<and> (lm_x lm = NotNum \<or> lm_y lm = NotNum)))"
  by (auto simp: getLM_def split: option.splits jsval.splits)

lemma getLM_sample:
  "i < 478 \<Longrightarrow> getLM sample_frame i =
     (case sample_point i of Some (FaceLandmark (Num a) (Num b)) \<Rightarrow> Some (Pt a b) | _ \<Rightarrow> None)"
  by (auto simp: getLM_def sample_frame_def sample_point_def lm_def)

lemma dist2D_Fin:
  "dist2D (Pt (Fin ax) (Fin ay)) (Pt (Fin bx) (Fin by)) = Fin (sqrt ((ax - bx)\<^sup>2 + (ay - by)\<^sup>2))"
  by (simp add: dist2D_def jsub_def)

lemma dist2D_vertical:
  "dist2D (Pt (Fin a) (Fin ay)) (Pt (Fin a) (Fin by)) = Fin \<bar>ay - by\<bar>"
  by (simp add: dist2D_Fin)

lemma dist2D_horizontal:
  "dist2D (Pt (Fin ax) (Fin b)) (Pt (Fin bx) (Fin b)) = Fin \<bar>ax - bx\<bar>"
  by (simp add: dist2D_Fin)

lemma calcEAR_6:
  "calcEARFromEye L [i1, i2, i3, i4, i5, i6] =
     (case (getLM L i1, getLM L i2, getLM L i3, getLM L i4, getLM L i5, getLM L i6) of
        (Some p1, Some p2, Some p3, Some p4, Some p5, Some p6) \<Rightarrow>
           if jseq (dist2D p1 p4) (Fin 0) then NaN
           else jdiv (jadd (dist2D p2 p6) (dist2D p3 p5)) (jmul (Fin 2) (dist2D p1 p4))
      | _ \<Rightarrow> NaN)"
  by (simp add: calcEARFromEye_def Let_def split: option.splits)

lemma calcMAR_8:
  "calcMARFromMouth L [i1, i2, i3, i4, i5, i6, i7, i8] =
     (case (getLM L i1, getLM L i2, getLM L i3, getLM L i4, getLM L i5, getLM L i6,
            getLM L i7, getLM L i8) of
        (Some u1, Some u2, Some l1, Some r1, Some r2, Some l2b, Some l3b, Some lCorner) \<Rightarrow>
           if jseq (dist2D lCorner r1) (Fin 0) then NaN
           else jdiv (jdiv (jadd (jadd (dist2D u1 l1) (dist2D u2 l2b)) (dist2D u1 l3b)) (Fin 3))
                  (dist2D lCorner r1)
      | _ \<Rightarrow> NaN)"
  by (simp add: calcMARFromMouth_def Let_def split: option.splits)

lemma ear_instance:
  assumes "getLM L i1 = Some (Pt (Fin 0) (Fin 0))"
      and "getLM L i4 = Some (Pt (Fin 1) (Fin 0))"
      and "getLM L i2 = Some (Pt (Fin 0.3) (Fin 0.2))"
      and "getLM L i6 = Some (Pt (Fin 0.3) (Fin (- 0.2)))"
      and "getLM L i3 = Some (Pt (Fin 0.6) (Fin 0.25))"
      and "getLM L i5 = Some (Pt (Fin 0.6) (Fin (- 0.25)))"
  shows "calcEARFromEye L [i1, i2, i3, i4, i5, i6] = Fin 0.45"
  using assms by (simp add: calcEAR_6 dist2D_vertical dist2D_horizontal jseq_def)

lemma sample_left: "calcEARFromEye sample_frame LEFT_EYE_POINTS = Fin 0.45"
  unfolding LEFT_EYE_POINTS_def
  by (rule ear_instance) (simp_all add: getLM_sample sample_point_def lm_def)

lemma sample_right: "calcEARFromEye sample_frame RIGHT_EYE_POINTS = Fin 0.45"
  unfolding RIGHT_EYE_POINTS_def
  by (rule ear_instance) (simp_all add: getLM_sample sample_point_def lm_def)

lemma sample_mar: "calcMARFromMouth sample_frame MOUTH_POINTS = Fin 0.3"
  unfolding MOUTH_POINTS_def
  by (simp add: calcMAR_8 getLM_sample sample_point_def lm_def dist2D_vertical dist2D_horizontal jseq_def)

lemma sample_frame_ear: "frame_ear sample_frame = Fin 0.45"
  by (simp add: frame_ear_def sample_left sample_right)


lemma length6_decomp:
  "6 \<le> length xs \<Longrightarrow> \<exists>a b c d e f r. xs = a # b # c # d # e # f # r"
  by (auto simp: eval_nat_numeral Suc_le_length_iff)

lemma length8_decomp:
  "8 \<le> length xs \<Longrightarrow> \<exists>a b c d e f g h r. xs = a # b # c # d # e # f # g # h # r"
  by (auto simp: eval_nat_numeral Suc_le_length_iff)

lemma calcEAR_missing:
  "i \<in> set idxs \<Longrightarrow> getLM L i = None \<Longrightarrow> calcEARFromEye L idxs = NaN"
  using those_map_None[of "getLM L" idxs]
  by (auto simp: calcEARFromEye_def split: option.splits)

lemma calcMAR_missing:
  "i \<in> set idxs \<Longrightarrow> getLM L i = None \<Longrightarrow> calcMARFromMouth L idxs = NaN"
  using those_map_None[of "getLM L" idxs]
  by (auto simp: calcMARFromMouth_def split: option.splits)

lemma calcEAR_zero:
  assumes "6 \<le> length idxs" "getLM L (idxs ! 0) = Some p1" "getLM L (idxs ! 3) = Some p4"
      and "dist2D p1 p4 = Fin 0"
  shows "calcEARFromEye L idxs = NaN"
proof -
  obtain a b c d e f r where xs: "idxs = a # b # c # d # e # f # r"
    using length6_decomp[OF assms(1)] by blast
  show ?thesis using assms(2-4) unfolding xs
    by (auto simp add: calcEARFromEye_def jseq_def split: option.splits)
qed

lemma calcMAR_zero:
  assumes "8 \<le> length idxs" "getLM L (idxs ! 7) = Some lc" "getLM L (idxs ! 3) = Some r1"
      and "dist2D lc r1 = Fin 0"
  shows "calcMARFromMouth L idxs = NaN"
proof -
  obtain a b c d e f g h r where xs: "idxs = a # b # c # d # e # f # g # h # r"
    using length8_decomp[OF assms(1)] by blast
  show ?thesis using assms(2-4) unfolding xs
    by (auto simp add: calcMARFromMouth_def jseq_def split: option.splits)
qed

lemma getLM_flat: "i < 478 \<Longrightarrow> getLM flat_frame i = Some (Pt (Fin 0) (Fin 0))"
  by (simp add: getLM_def flat_frame_def lm_def)

lemma getLM_empty: "getLM (Some []) i = None"
  by (simp add: getLM_def)

lemma flat_left: "calcEARFromEye flat_frame LEFT_EYE_POINTS = NaN"
  by (rule calcEAR_zero [of _ _ "Pt (Fin 0) (Fin 0)" "Pt (Fin 0) (Fin 0)"])
     (simp_all add: LEFT_EYE_POINTS_def getLM_flat dist2D_Fin)

section \<open>Properties of the calibration\<close>

lemma accumulateCalibration_alt:
  "accumulateCalibration landmarks c =
     (let ear = frame_ear landmarks;
          mar = frame_mar landmarks
      in if \<not> isFinite ear \<or> \<not> isFinite mar then c
         else
           let n = calibrationSamples c + 1 in
           \<lparr>earBaseline = Some (running_mean (earBaseline c) ear n),
            marBaseline = Some (running_mean (marBaseline c) mar n),
            calibrationSamples = n\<rparr>)"
  by (simp add: accumulateCalibration_def frame_ear_def frame_mar_def running_mean_def Let_def)


lemma jadd_nonfinite: "\<not> isFinite a \<or> \<not> isFinite b \<Longrightarrow> \<not> isFinite (jadd a b)"
  by (cases a; cases b) auto

lemma jdiv2_nonfinite: "\<not> isFinite a \<Longrightarrow> \<not> isFinite (jdiv a (Fin 2))"
  by (cases a) (auto simp: jinf_def)

lemma frame_ear_nonfinite:
  "\<not> isFinite (calcEARFromEye L LEFT_EYE_POINTS) \<or> \<not> isFinite (calcEARFromEye L RIGHT_EYE_POINTS)
   \<Longrightarrow> \<not> isFinite (frame_ear L)"
  unfolding frame_ear_def Let_def by (intro jdiv2_nonfinite jadd_nonfinite)

lemma accumulate_skip:
  "\<not> isFinite (frame_ear L) \<or> \<not> isFinite (frame_mar L) \<Longrightarrow> accumulateCalibration L c = c"
  by (auto simp: accumulateCalibration_alt Let_def)

lemma running_mean_same:
  "0 < n \<Longrightarrow> running_mean (Some (Fin v)) (Fin v) n = Fin v"
  by (simp add: running_mean_def jsub_def)

lemma accumulate_identical:
  assumes "frame_ear L = Fin e" "frame_mar L = Fin m"
  shows "(accumulateCalibration L ^^ Suc k) \<lparr>earBaseline = None, marBaseline = None, calibrationSamples = 0\<rparr>
           = \<lparr>earBaseline = Some (Fin e), marBaseline = Some (Fin m), calibrationSamples = Suc k\<rparr>"
proof (induction k)
  case 0
  show ?case using assms by (simp add: accumulateCalibration_alt running_mean_def)
next
  case (Suc k)
  have "(accumulateCalibration L ^^ Suc (Suc k)) \<lparr>earBaseline = None, marBaseline = None, calibrationSamples = 0\<rparr>
        = accumulateCalibration L \<lparr>earBaseline = Some (Fin e), marBaseline = Some (Fin m), calibrationSamples = Suc k\<rparr>"
    using Suc.IH by simp
  also have "\<dots> = \<lparr>earBaseline = Some (Fin e), marBaseline = Some (Fin m), calibrationSamples = Suc (Suc k)\<rparr>"
    using assms by (simp add: accumulateCalibration_alt running_mean_same)
  finally show ?case .
qed

lemma sample_frame_mar: "frame_mar sample_frame = Fin 0.3"
  by (simp add: frame_mar_def sample_mar)

lemma sample_cal_eq: "sample_cal = (accumulateCalibration sample_frame ^^ 5) calibration_init"
proof -
  have "(accumulateCalibration sample_frame ^^ Suc 4) calibration_init = sample_cal"
    unfolding calibration_init_def sample_cal_def
    using accumulate_identical[OF sample_frame_ear sample_frame_mar, of 4] by simp
  then show ?thesis by (simp add: eval_nat_numeral)
qed

lemma reachable_funpow: "cal_reachable c \<Longrightarrow> cal_reachable ((accumulateCalibration L ^^ n) c)"
  by (induction n) (auto intro: cal_reachable.intros)

lemma sample_cal_reachable: "cal_reachable sample_cal"
  unfolding sample_cal_eq by (rule reachable_funpow) (rule cal_start)

lemma running_mean_finite:
  "isFinite v \<Longrightarrow> (case bl of None \<Rightarrow> True | Some b \<Rightarrow> isFinite b) \<Longrightarrow> 0 < n
   \<Longrightarrow> isFinite (running_mean bl v n)"
  by (cases v; cases bl) (auto simp: running_mean_def jsub_def elim!: isFinite.elims)

lemma cal_inv_init: "cal_inv calibration_init"
  by (simp add: cal_inv_def calibration_init_def)

lemma cal_inv_reset: "cal_inv (resetCalibration c)"
  by (simp add: cal_inv_def resetCalibration_def)

lemma cal_inv_accumulate: "cal_inv c \<Longrightarrow> cal_inv (accumulateCalibration L c)"
  by (simp add: cal_inv_def accumulateCalibration_alt Let_def)

lemma reachable_inv: "cal_reachable c \<Longrightarrow> cal_inv c"
  by (induction rule: cal_reachable.induct) (simp_all add: cal_inv_init cal_inv_reset cal_inv_accumulate)

lemma reachable_finite: "cal_reachable c \<Longrightarrow> baselines_finite c"
proof (induction rule: cal_reachable.induct)
  case cal_start
  show ?case by (simp add: baselines_finite_def calibration_init_def)
next
  case (cal_accumulate c L)
  then show ?case
    by (auto simp: baselines_finite_def accumulateCalibration_alt Let_def intro!: running_mean_finite)
next
  case (cal_reset c)
  show ?case by (simp add: baselines_finite_def resetCalibration_def)
qed


lemma isFinite_Fin: "isFinite a \<Longrightarrow> \<exists>v. a = Fin v"
  by (cases a) simp_all

section \<open>Properties of the frame handler\<close>

lemma nonneg_hypot: "nonneg (hypot a b)"
  by (cases a; cases b) (simp_all add: nonneg_def isInf_def)

lemma nonneg_dist2D: "nonneg (dist2D p q)"
  by (simp add: dist2D_def Let_def nonneg_hypot)

lemma nonneg_jadd: "nonneg a \<Longrightarrow> nonneg b \<Longrightarrow> nonneg (jadd a b)"
  by (cases a; cases b) (simp_all add: nonneg_def)

lemma nonneg_jmul2: "nonneg a \<Longrightarrow> nonneg (jmul (Fin 2) a)"
  by (cases a) (simp_all add: nonneg_def jinf_def)

lemma nonneg_jdiv: "nonneg a \<Longrightarrow> nonneg b \<Longrightarrow> nonneg (jdiv a b)"
  by (cases a; cases b) (auto simp: nonneg_def jinf_def)

lemma nonneg_NaN: "nonneg NaN"
  by (simp add: nonneg_def)

lemma those_length: "those xs = Some ys \<Longrightarrow> length ys = length xs"
  by (induction xs arbitrary: ys) (auto split: option.splits)

lemma nonneg_calcEAR: "nonneg (calcEARFromEye L idxs)"
proof (cases "those (map (getLM L) idxs)")
  case None
  then show ?thesis by (simp add: calcEARFromEye_def nonneg_NaN)
next
  case (Some ps)
  show ?thesis
  proof (cases "length idxs < 6")
    case True
    then show ?thesis by (simp add: calcEARFromEye_def nonneg_NaN)
  next
    case False
    then have "6 \<le> length ps" using those_length [OF Some] by simp
    then obtain p1 p2 p3 p4 p5 p6 r where ps: "ps = p1 # p2 # p3 # p4 # p5 # p6 # r"
      using length6_decomp by blast
    have "nonneg (jdiv (jadd (dist2D p2 p6) (dist2D p3 p5)) (jmul (Fin 2) (dist2D p1 p4)))"
      by (intro nonneg_jdiv nonneg_jadd nonneg_jmul2 nonneg_dist2D)
    then show ?thesis using False
      by (simp add: calcEARFromEye_def Some ps nonneg_NaN Let_def)
  qed
qed

lemma nonneg_frame_ear: "nonneg (frame_ear L)"
  unfolding frame_ear_def Let_def
  by (intro nonneg_jdiv nonneg_jadd nonneg_calcEAR) (simp add: nonneg_def)

lemma nonfinite_not_less: "nonneg a \<Longrightarrow> \<not> isFinite a \<Longrightarrow> \<not> jlt a b"
  by (cases a; cases b) (simp_all add: nonneg_def)

lemma NaN_not_greater: "\<not> jgt NaN b"
  by (cases b) (simp_all add: jgt_def)

lemma onResults_noface:
  "r = None \<or> r = Some [] \<Longrightarrow>
   onResults r d t st = ((''Inactive'', ''Inactive'', False), st\<lparr>isProcessing := False\<rparr>)"
  by (auto simp: onResults_def)

lemma onResults_calibrating:
  "calibrating st \<Longrightarrow>
   onResults (Some (L # faces)) d t st =
     ((''Calibrating'', ''Calibrating'', False),
      st\<lparr>isProcessing := False, cal := accumulateCalibration L (cal st),
         calibrating := \<not> (d - calibrationStart st > 2000)\<rparr>)"
  by (simp add: onResults_def Let_def)

lemma onResults_detect:
  assumes "\<not> calibrating st"
  shows "onResults (Some (L # faces)) d now st =
     (let eyesClosed = jlt (frame_ear L) (getCurrentEARThreshold (cal st));
          isYawning = jgt (frame_mar L) (getCurrentMARThreshold (cal st));
          ce = (if eyesClosed then (case closedEyeStart st of None \<Rightarrow> Some now | Some t \<Rightarrow> Some t)
                else None);
          om = (if isYawning then (case openMouthStart st of None \<Rightarrow> Some now | Some t \<Rightarrow> Some t)
                else None);
          dd = (case ce of None \<Rightarrow> False | Some t \<Rightarrow> now - t > 3000);
          yd = (case om of None \<Rightarrow> False | Some t \<Rightarrow> now - t > 3000)
      in ((if dd then ''Drowsy'' else ''Active'', if yd then ''Yawning'' else ''Active'', dd \<or> yd),
          st\<lparr>isProcessing := False, closedEyeStart := ce, openMouthStart := om\<rparr>))"
  using assms
  by (simp add: onResults_def Let_def frame_ear_def frame_mar_def calculateEAR_def
      calculateMAR_def split: option.splits)


lemma flat_mar: "calcMARFromMouth flat_frame MOUTH_POINTS = NaN"
  by (rule calcMAR_zero [of _ _ "Pt (Fin 0) (Fin 0)" "Pt (Fin 0) (Fin 0)"])
     (simp_all add: MOUTH_POINTS_def getLM_flat dist2D_Fin)

lemma flat_frame_ear: "frame_ear flat_frame = NaN"
  by (simp add: frame_ear_def flat_left)

lemma flat_frame_mar: "frame_mar flat_frame = NaN"
  by (simp add: frame_mar_def flat_mar)

lemma sample_state_thresholds:
  "getCurrentEARThreshold (cal sample_state) = Fin 0.75"
  "getCurrentMARThreshold (cal sample_state) = Fin 0.14"
  "\<not> calibrating sample_state"
  by (simp_all add: sample_state_def getCurrentEARThreshold_def getCurrentMARThreshold_def
      EAR_CALIBRATION_FACTOR_def MAR_CALIBRATION_FACTOR_def)

lemma sample_step:
  "onResults (Some [sample_frame]) 0 5000 sample_state =
     ((''Drowsy'', ''Active'', True),
      sample_state\<lparr>isProcessing := False, openMouthStart := Some 5000\<rparr>)"
  by (simp add: onResults_detect sample_state_thresholds sample_frame_ear sample_frame_mar jgt_def)
     (simp add: sample_state_def)

lemma sample_step2:
  "onResults (Some [sample_frame]) 0 5000
       (sample_state\<lparr>closedEyeStart := None, openMouthStart := Some 1000\<rparr>) =
     ((''Active'', ''Yawning'', True),
      sample_state\<lparr>isProcessing := False, closedEyeStart := Some 5000, openMouthStart := Some 1000\<rparr>)"
  by (simp add: onResults_detect sample_state_thresholds sample_frame_ear sample_frame_mar jgt_def)

lemma flat_step:
  "onResults (Some [flat_frame]) 0 5000 sample_state =
     ((''Active'', ''Active'', False),
      sample_state\<lparr>isProcessing := False, closedEyeStart := None\<rparr>)"
  by (simp add: onResults_detect sample_state_thresholds flat_frame_ear flat_frame_mar jgt_def)
     (simp add: sample_state_def)

lemma detect_outcome:
  assumes "\<not> calibrating st"
      and "onResults (Some (L # faces)) d now st = ((eyeStatus, mouthStatus, alertRequired), st')"
  shows "closedEyeStart st' =
           (if jlt (frame_ear L) (getCurrentEARThreshold (cal st))
            then (case closedEyeStart st of None \<Rightarrow> Some now | Some t \<Rightarrow> Some t) else None)"
    and "openMouthStart st' =
           (if jgt (frame_mar L) (getCurrentMARThreshold (cal st))
            then (case openMouthStart st of None \<Rightarrow> Some now | Some t \<Rightarrow> Some t) else None)"
    and "eyeStatus =
           (if (case closedEyeStart st' of None \<Rightarrow> False | Some t \<Rightarrow> now - t > 3000)
            then ''Drowsy'' else ''Active'')"
    and "mouthStatus =
           (if (case openMouthStart st' of None \<Rightarrow> False | Some t \<Rightarrow> now - t > 3000)
            then ''Yawning'' else ''Active'')"
    and "alertRequired =
           ((case closedEyeStart st' of None \<Rightarrow> False | Some t \<Rightarrow> now - t > 3000) \<or>
            (case openMouthStart st' of None \<Rightarrow> False | Some t \<Rightarrow> now - t > 3000))"
proof -
  define ce where "ce = (if jlt (frame_ear L) (getCurrentEARThreshold (cal st))
      then (case closedEyeStart st of None \<Rightarrow> Some now | Some t \<Rightarrow> Some t) else None)"
  define om where "om = (if jgt (frame_mar L) (getCurrentMARThreshold (cal st))
      then (case openMouthStart st of None \<Rightarrow> Some now | Some t \<Rightarrow> Some t) else None)"
  define dd where "dd = (case ce of None \<Rightarrow> False | Some t \<Rightarrow> now - t > 3000)"
  define yd where "yd = (case om of None \<Rightarrow> False | Some t \<Rightarrow> now - t > 3000)"
  have step: "onResults (Some (L # faces)) d now st =
      ((if dd then ''Drowsy'' else ''Active'', if yd then ''Yawning'' else ''Active'', dd \<or> yd),
       st\<lparr>isProcessing := False, closedEyeStart := ce, openMouthStart := om\<rparr>)"
    unfolding onResults_detect [OF assms(1)] Let_def ce_def om_def dd_def yd_def ..
  from assms(2) have es: "eyeStatus = (if dd then ''Drowsy'' else ''Active'')"
    and ms: "mouthStatus = (if yd then ''Yawning'' else ''Active'')"
    and al: "alertRequired = (dd \<or> yd)"
    and st': "st' = st\<lparr>isProcessing := False, closedEyeStart := ce, openMouthStart := om\<rparr>"
    unfolding step by simp_all
  have c: "closedEyeStart st' = ce" and m: "openMouthStart st' = om"
    by (simp_all add: st')
  show "closedEyeStart st' =
           (if jlt (frame_ear L) (getCurrentEARThreshold (cal st))
            then (case closedEyeStart st of None \<Rightarrow> Some now | Some t \<Rightarrow> Some t) else None)"
    unfolding c ce_def ..
  show "openMouthStart st' =
           (if jgt (frame_mar L) (getCurrentMARThreshold (cal st))
            then (case openMouthStart st of None \<Rightarrow> Some now | Some t \<Rightarrow> Some t) else None)"
    unfolding m om_def ..
  show "eyeStatus =
           (if (case closedEyeStart st' of None \<Rightarrow> False | Some t \<Rightarrow> now - t > 3000)
            then ''Drowsy'' else ''Active'')"
    unfolding c es dd_def ..
  show "mouthStatus =
           (if (case openMouthStart st' of None \<Rightarrow> False | Some t \<Rightarrow> now - t > 3000)
            then ''Yawning'' else ''Active'')"
    unfolding m ms yd_def ..
  show "alertRequired =
           ((case closedEyeStart st' of None \<Rightarrow> False | Some t \<Rightarrow> now - t > 3000) \<or>
            (case openMouthStart st' of None \<Rightarrow> False | Some t \<Rightarrow> now - t > 3000))"
    unfolding c m al dd_def yd_def ..
qed

lemma results_cases:
  obtains "r = None \<or> r = Some []" | L faces where "r = Some (L # faces)"
  by (cases r; cases "the r") auto

lemma onResults_calibrationStart:
  "calibrationStart (snd (onResults r d t st)) = calibrationStart st"
proof (cases r rule: results_cases)
  case 1
  then show ?thesis by (simp add: onResults_noface)
next
  case (2 L faces)
  then show ?thesis
    by (cases "calibrating st") (simp_all add: onResults_calibrating onResults_detect Let_def)
qed

lemma onResults_keeps_calibrating:
  assumes "calibrating st" "d - calibrationStart st \<le> 2000"
  shows "calibrating (snd (onResults r d t st))"
proof (cases r rule: results_cases)
  case 1
  then show ?thesis using assms by (simp add: onResults_noface)
next
  case (2 L faces)
  then show ?thesis using assms by (simp add: onResults_calibrating)
qed

lemma onResults_stays_detecting:
  assumes "\<not> calibrating st"
  shows "\<not> calibrating (snd (onResults r d t st))"
proof (cases r rule: results_cases)
  case 1
  then show ?thesis using assms by (simp add: onResults_noface)
next
  case (2 L faces)
  then show ?thesis using assms by (simp add: onResults_detect Let_def)
qed

lemma run_keeps_calibrating:
  "calibrating st \<Longrightarrow> \<forall>ev\<in>set evs. fst (snd ev) - calibrationStart st \<le> 2000
   \<Longrightarrow> calibrating (run st evs)"
proof (induction evs arbitrary: st)
  case Nil
  then show ?case by simp
next
  case (Cons ev evs)
  obtain r d t where ev: "ev = (r, d, t)" by (cases ev)
  have "calibrating (snd (onResults r d t st))"
    using Cons.prems by (intro onResults_keeps_calibrating) (simp_all add: ev)
  moreover have "\<forall>e\<in>set evs. fst (snd e) - calibrationStart (snd (onResults r d t st)) \<le> 2000"
    using Cons.prems(2) by (simp add: onResults_calibrationStart)
  ultimately show ?case using Cons.IH by (simp add: ev)
qed

lemma run_stays_detecting: "\<not> calibrating st \<Longrightarrow> \<not> calibrating (run st evs)"
proof (induction evs arbitrary: st)
  case Nil
  then show ?case by simp
next
  case (Cons ev evs)
  obtain r d t where ev: "ev = (r, d, t)" by (cases ev)
  show ?case using Cons.IH [OF onResults_stays_detecting [OF Cons.prems]] by (simp add: ev)
qed

lemma startDetection_fields:
  "calibrating (startDetection t0 s)" "calibrationStart (startDetection t0 s) = t0"
  by (simp_all add: startDetection_def)

lemma accumulate_first_sample:
  "accumulateCalibration sample_frame (resetCalibration c) =
     \<lparr>earBaseline = Some (Fin 0.45), marBaseline = Some (Fin 0.3), calibrationSamples = 1\<rparr>"
  using accumulate_identical [OF sample_frame_ear sample_frame_mar, of 0]
  by (simp add: resetCalibration_def)

lemma boundary_first_frame:
  "onResults (Some [sample_frame]) 2000 0 (startDetection 0 sample_state) =
     ((''Calibrating'', ''Calibrating'', False),
      (startDetection 0 sample_state)\<lparr>isProcessing := False,
         cal := \<lparr>earBaseline = Some (Fin 0.45), marBaseline = Some (Fin 0.3), calibrationSamples = 1\<rparr>,
         calibrating := True\<rparr>)"
  by (simp add: onResults_calibrating startDetection_fields)
     (simp add: startDetection_def accumulate_first_sample)

text \<open>
  The clock is read after \<^verbatim>\<open>accumulateCalibration\<close>: the first face frame of a session is
  accumulated however late it arrives, here 5000 ms after the start.
\<close>

lemma late_first_frame:
  "onResults (Some [sample_frame]) 5000 0 (startDetection 0 sample_state) =
     ((''Calibrating'', ''Calibrating'', False),
      (startDetection 0 sample_state)\<lparr>isProcessing := False,
         cal := \<lparr>earBaseline = Some (Fin 0.45), marBaseline = Some (Fin 0.3), calibrationSamples = 1\<rparr>,
         calibrating := False\<rparr>)"
  by (simp add: onResults_calibrating startDetection_fields)
     (simp add: startDetection_def accumulate_first_sample)

lemma getLM_inf:
  "i < 478 \<Longrightarrow> getLM inf_frame i =
     (if i = 13 then Some (Pt PInf (Fin 0)) else getLM sample_frame i)"
  by (simp add: getLM_def inf_frame_def sample_frame_def nth_list_update)

lemma inf_frame_mar: "frame_mar inf_frame = PInf"
  unfolding frame_mar_def MOUTH_POINTS_def
  by (simp add: calcMAR_8 getLM_inf getLM_sample sample_point_def lm_def dist2D_def jsub_def
      isInf_def jseq_def jinf_def)

lemma inf_frame_ear: "frame_ear inf_frame = Fin 0.45"
proof -
  have "calcEARFromEye inf_frame LEFT_EYE_POINTS = Fin 0.45"
    unfolding LEFT_EYE_POINTS_def
    by (rule ear_instance) (simp_all add: getLM_inf getLM_sample sample_point_def lm_def)
  moreover have "calcEARFromEye inf_frame RIGHT_EYE_POINTS = Fin 0.45"
    unfolding RIGHT_EYE_POINTS_def
    by (rule ear_instance) (simp_all add: getLM_inf getLM_sample sample_point_def lm_def)
  ultimately show ?thesis by (simp add: frame_ear_def)
qed

lemma infinite_mouth_ratio_counts_as_open:
  "\<not> isFinite (frame_mar inf_frame)
   \<and> onResults (Some [inf_frame]) 0 5000 (sample_state\<lparr>openMouthStart := Some 1000\<rparr>) =
       ((''Drowsy'', ''Yawning'', True),
        sample_state\<lparr>isProcessing := False, openMouthStart := Some 1000\<rparr>)
   \<and> \<not> isYawn (analyzeFrame inf_frame (cal sample_state))"
  by (simp add: onResults_detect sample_state_thresholds inf_frame_ear inf_frame_mar jgt_def
      analyzeFrame_def calculateMAR_def frame_mar_def [symmetric])
     (simp add: sample_state_def Let_def)

section \<open>Claims\<close>

lemma getLM_sample_left:
  "getLM sample_frame 33 = Some (Pt (Fin 0) (Fin 0))"
  "getLM sample_frame 160 = Some (Pt (Fin 0.3) (Fin 0.2))"
  "getLM sample_frame 158 = Some (Pt (Fin 0.6) (Fin 0.25))"
  "getLM sample_frame 133 = Some (Pt (Fin 1) (Fin 0))"
  "getLM sample_frame 153 = Some (Pt (Fin 0.6) (Fin (- 0.25)))"
  "getLM sample_frame 144 = Some (Pt (Fin 0.3) (Fin (- 0.2)))"
  by (simp_all add: getLM_sample sample_point_def lm_def)

text \<open>
  C2. When all six eye landmarks exist with numeric coordinates and the distance from
  \<open>p1\<close> to \<open>p4\<close> is not zero, the eye-openness ratio is
  \<open>(dist(p2,p6) + dist(p3,p5)) / (2 * dist(p1,p4))\<close>, where the distance of two points
  with finite coordinates is the Euclidean distance of their \<open>x\<close> and \<open>y\<close>
  (\<open>z\<close> is not read). For \<open>p1=(0,0)\<close>, \<open>p4=(1,0)\<close>, \<open>p2=(0.3,0.2)\<close>, \<open>p6=(0.3,-0.2)\<close>,
  \<open>p3=(0.6,0.25)\<close>, \<open>p5=(0.6,-0.25)\<close> the ratio is 0.45.
\<close>

theorem eye_ratio_formula:
  "(getLM L i1 = Some p1 \<and> getLM L i2 = Some p2 \<and> getLM L i3 = Some p3 \<and>
    getLM L i4 = Some p4 \<and> getLM L i5 = Some p5 \<and> getLM L i6 = Some p6 \<and>
    dist2D p1 p4 \<noteq> Fin 0 \<longrightarrow>
      calcEARFromEye L [i1, i2, i3, i4, i5, i6] =
        jdiv (jadd (dist2D p2 p6) (dist2D p3 p5)) (jmul (Fin 2) (dist2D p1 p4)))
   \<and> dist2D (Pt (Fin ax) (Fin ay)) (Pt (Fin bx) (Fin by))
        = Fin (sqrt ((ax - bx)\<^sup>2 + (ay - by)\<^sup>2))
   \<and> (getLM L i1 = Some (Pt (Fin 0) (Fin 0)) \<and> getLM L i4 = Some (Pt (Fin 1) (Fin 0)) \<and>
       getLM L i2 = Some (Pt (Fin 0.3) (Fin 0.2)) \<and> getLM L i6 = Some (Pt (Fin 0.3) (Fin (- 0.2))) \<and>
       getLM L i3 = Some (Pt (Fin 0.6) (Fin 0.25)) \<and> getLM L i5 = Some (Pt (Fin 0.6) (Fin (- 0.25))) \<longrightarrow>
         calcEARFromEye L [i1, i2, i3, i4, i5, i6] = Fin 0.45)"
proof (intro conjI impI)
  assume "getLM L i1 = Some p1 \<and> getLM L i2 = Some p2 \<and> getLM L i3 = Some p3 \<and>
    getLM L i4 = Some p4 \<and> getLM L i5 = Some p5 \<and> getLM L i6 = Some p6 \<and>
    dist2D p1 p4 \<noteq> Fin 0"
  then show "calcEARFromEye L [i1, i2, i3, i4, i5, i6] =
        jdiv (jadd (dist2D p2 p6) (dist2D p3 p5)) (jmul (Fin 2) (dist2D p1 p4))"
    by (simp add: calcEAR_6 jseq_def)
next
  show "dist2D (Pt (Fin ax) (Fin ay)) (Pt (Fin bx) (Fin by))
        = Fin (sqrt ((ax - bx)\<^sup>2 + (ay - by)\<^sup>2))"
    by (rule dist2D_Fin)
next
  assume "getLM L i1 = Some (Pt (Fin 0) (Fin 0)) \<and> getLM L i4 = Some (Pt (Fin 1) (Fin 0)) \<and>
       getLM L i2 = Some (Pt (Fin 0.3) (Fin 0.2)) \<and> getLM L i6 = Some (Pt (Fin 0.3) (Fin (- 0.2))) \<and>
       getLM L i3 = Some (Pt (Fin 0.6) (Fin 0.25)) \<and> getLM L i5 = Some (Pt (Fin 0.6) (Fin (- 0.25)))"
  then show "calcEARFromEye L [i1, i2, i3, i4, i5, i6] = Fin 0.45"
    by (intro ear_instance) simp_all
qed

theorem eye_ratio_formula_witness:
  "getLM sample_frame 33 = Some (Pt (Fin 0) (Fin 0)) \<and>
   getLM sample_frame 160 = Some (Pt (Fin 0.3) (Fin 0.2)) \<and>
   getLM sample_frame 158 = Some (Pt (Fin 0.6) (Fin 0.25)) \<and>
   getLM sample_frame 133 = Some (Pt (Fin 1) (Fin 0)) \<and>
   getLM sample_frame 153 = Some (Pt (Fin 0.6) (Fin (- 0.25))) \<and>
   getLM sample_frame 144 = Some (Pt (Fin 0.3) (Fin (- 0.2))) \<and>
   dist2D (Pt (Fin 0) (Fin 0)) (Pt (Fin 1) (Fin 0)) \<noteq> Fin 0 \<and>
   calcEARFromEye sample_frame [33, 160, 158, 133, 153, 144] =
     jdiv (jadd (dist2D (Pt (Fin 0.3) (Fin 0.2)) (Pt (Fin 0.3) (Fin (- 0.2))))
                (dist2D (Pt (Fin 0.6) (Fin 0.25)) (Pt (Fin 0.6) (Fin (- 0.25)))))
          (jmul (Fin 2) (dist2D (Pt (Fin 0) (Fin 0)) (Pt (Fin 1) (Fin 0)))) \<and>
   calcEARFromEye sample_frame [33, 160, 158, 133, 153, 144] = Fin 0.45"
proof -
  have d: "dist2D (Pt (Fin 0) (Fin 0)) (Pt (Fin 1) (Fin 0)) \<noteq> Fin 0"
    by (simp add: dist2D_horizontal)
  show ?thesis
    using eye_ratio_formula [of sample_frame 33 "Pt (Fin 0) (Fin 0)" 160 "Pt (Fin 0.3) (Fin 0.2)"
        158 "Pt (Fin 0.6) (Fin 0.25)" 133 "Pt (Fin 1) (Fin 0)" 153 "Pt (Fin 0.6) (Fin (- 0.25))"
        144 "Pt (Fin 0.3) (Fin (- 0.2))"] d getLM_sample_left
    by simp
qed


text \<open>
  C4. The eye and the mouth ratio are the non-finite sentinel NaN when a required index
  is absent from the frame (the frame is no array, the index is past its end, or the
  entry is null) or its landmark has a coordinate that is not a number, and when the
  reference distance (eye: \<open>p1\<close> to \<open>p4\<close>; mouth: the left corner to the first right
  corner) is exactly zero. Every access of the source is guarded, so a value is returned
  in each case.
\<close>

theorem ratio_sentinel:
  "(i \<in> set idxs \<and>
      (L = None \<or>
       (\<exists>arr. L = Some arr \<and>
          (length arr \<le> i \<or> arr ! i = None \<or>
           (\<exists>l. arr ! i = Some l \<and> (lm_x l = NotNum \<or> lm_y l = NotNum))))) \<longrightarrow>
        calcEARFromEye L idxs = NaN \<and> calcMARFromMouth L idxs = NaN)
   \<and> (6 \<le> length idxs \<and> getLM L (idxs ! 0) = Some p1 \<and> getLM L (idxs ! 3) = Some p4 \<and>
        dist2D p1 p4 = Fin 0 \<longrightarrow> calcEARFromEye L idxs = NaN)
   \<and> (8 \<le> length idxs \<and> getLM L (idxs ! 7) = Some lCorner \<and> getLM L (idxs ! 3) = Some r1 \<and>
        dist2D lCorner r1 = Fin 0 \<longrightarrow> calcMARFromMouth L idxs = NaN)
   \<and> \<not> isFinite NaN"
proof (intro conjI impI)
  assume h: "i \<in> set idxs \<and>
      (L = None \<or>
       (\<exists>arr. L = Some arr \<and>
          (length arr \<le> i \<or> arr ! i = None \<or>
           (\<exists>l. arr ! i = Some l \<and> (lm_x l = NotNum \<or> lm_y l = NotNum)))))"
  then have g: "getLM L i = None"
    unfolding getLM_None_iff by (auto split: option.splits)
  from h have i: "i \<in> set idxs" by simp
  show "calcEARFromEye L idxs = NaN" by (rule calcEAR_missing [OF i g])
  show "calcMARFromMouth L idxs = NaN" by (rule calcMAR_missing [OF i g])
next
  assume "6 \<le> length idxs \<and> getLM L (idxs ! 0) = Some p1 \<and> getLM L (idxs ! 3) = Some p4 \<and>
        dist2D p1 p4 = Fin 0"
  then show "calcEARFromEye L idxs = NaN" by (blast intro: calcEAR_zero)
next
  assume "8 \<le> length idxs \<and> getLM L (idxs ! 7) = Some lCorner \<and> getLM L (idxs ! 3) = Some r1 \<and>
        dist2D lCorner r1 = Fin 0"
  then show "calcMARFromMouth L idxs = NaN" by (blast intro: calcMAR_zero)
next
  show "\<not> isFinite NaN" by simp
qed

theorem ratio_sentinel_witness:
  "(33 \<in> set LEFT_EYE_POINTS \<and> length ([] :: FaceLandmark option list) \<le> 33 \<and>
      calcEARFromEye (Some []) LEFT_EYE_POINTS = NaN)
   \<and> (13 \<in> set MOUTH_POINTS \<and> calcMARFromMouth None MOUTH_POINTS = NaN)
   \<and> (6 \<le> length LEFT_EYE_POINTS \<and>
       getLM flat_frame (LEFT_EYE_POINTS ! 0) = Some (Pt (Fin 0) (Fin 0)) \<and>
       getLM flat_frame (LEFT_EYE_POINTS ! 3) = Some (Pt (Fin 0) (Fin 0)) \<and>
       dist2D (Pt (Fin 0) (Fin 0)) (Pt (Fin 0) (Fin 0)) = Fin 0 \<and>
       calcEARFromEye flat_frame LEFT_EYE_POINTS = NaN)
   \<and> (8 \<le> length MOUTH_POINTS \<and>
       getLM flat_frame (MOUTH_POINTS ! 7) = Some (Pt (Fin 0) (Fin 0)) \<and>
       getLM flat_frame (MOUTH_POINTS ! 3) = Some (Pt (Fin 0) (Fin 0)) \<and>
       calcMARFromMouth flat_frame MOUTH_POINTS = NaN)"
proof -
  have d: "dist2D (Pt (Fin 0) (Fin 0)) (Pt (Fin 0) (Fin 0)) = Fin 0"
    by (simp add: dist2D_Fin)
  have e: "getLM flat_frame (LEFT_EYE_POINTS ! 0) = Some (Pt (Fin 0) (Fin 0))"
          "getLM flat_frame (LEFT_EYE_POINTS ! 3) = Some (Pt (Fin 0) (Fin 0))"
          "6 \<le> length LEFT_EYE_POINTS" "33 \<in> set LEFT_EYE_POINTS"
    by (simp_all add: LEFT_EYE_POINTS_def getLM_flat)
  have m: "getLM flat_frame (MOUTH_POINTS ! 7) = Some (Pt (Fin 0) (Fin 0))"
          "getLM flat_frame (MOUTH_POINTS ! 3) = Some (Pt (Fin 0) (Fin 0))"
          "8 \<le> length MOUTH_POINTS" "13 \<in> set MOUTH_POINTS"
    by (simp_all add: MOUTH_POINTS_def getLM_flat)
  show ?thesis
    using ratio_sentinel [of 33 LEFT_EYE_POINTS "Some []"]
      ratio_sentinel [of 13 MOUTH_POINTS None]
      ratio_sentinel [of _ LEFT_EYE_POINTS flat_frame "Pt (Fin 0) (Fin 0)" "Pt (Fin 0) (Fin 0)"]
      ratio_sentinel [of _ MOUTH_POINTS flat_frame _ _ "Pt (Fin 0) (Fin 0)" "Pt (Fin 0) (Fin 0)"]
      d e m
    by simp
qed

text \<open>
  C5. When a computed eye ratio (left, right or their average) or the mouth ratio of the
  frame is not finite, \<^verbatim>\<open>accumulateCalibration\<close> changes nothing: the sample count and
  both baselines are as before.
\<close>

theorem accumulate_discards_nonfinite:
  assumes "\<not> isFinite (calcEARFromEye L LEFT_EYE_POINTS) \<or>
           \<not> isFinite (calcEARFromEye L RIGHT_EYE_POINTS) \<or>
           \<not> isFinite (frame_ear L) \<or>
           \<not> isFinite (calcMARFromMouth L MOUTH_POINTS)"
  shows "accumulateCalibration L c = c
         \<and> calibrationSamples (accumulateCalibration L c) = calibrationSamples c
         \<and> earBaseline (accumulateCalibration L c) = earBaseline c
         \<and> marBaseline (accumulateCalibration L c) = marBaseline c"
proof -
  have "\<not> isFinite (frame_ear L) \<or> \<not> isFinite (frame_mar L)"
    using assms frame_ear_nonfinite[of L] by (auto simp: frame_mar_def)
  then show ?thesis by (simp add: accumulate_skip)
qed

theorem accumulate_discards_nonfinite_witness:
  "\<not> isFinite (calcEARFromEye flat_frame LEFT_EYE_POINTS)
   \<and> accumulateCalibration flat_frame sample_cal = sample_cal
   \<and> calibrationSamples (accumulateCalibration flat_frame sample_cal) = 5
   \<and> earBaseline (accumulateCalibration flat_frame sample_cal) = Some (Fin 0.45)
   \<and> marBaseline (accumulateCalibration flat_frame sample_cal) = Some (Fin 0.3)"
proof -
  have h: "\<not> isFinite (calcEARFromEye flat_frame LEFT_EYE_POINTS)"
    by (simp add: flat_left)
  show ?thesis
    using accumulate_discards_nonfinite [of flat_frame sample_cal] h
    by (simp add: sample_cal_def)
qed


text \<open>
  C6. For every \<open>N \<ge> 1\<close>, feeding the same frame with finite ratios \<open>N\<close> times into the
  calibration, from the reset state, leaves each baseline equal to that frame's ratio
  and the sample count equal to \<open>N\<close>; a reset afterwards sets the count to 0, clears
  both baselines, and both thresholds are the static constants 0.41 and 0.80. One
  accepted sample adds one to the count and moves each baseline by
  \<open>baseline + (value - baseline) / sampleCount\<close>, the first one setting it directly.
\<close>

theorem identical_samples:
  assumes "isFinite (frame_ear L)" and "isFinite (frame_mar L)" and "1 \<le> N"
  shows "calibrationSamples ((accumulateCalibration L ^^ N) (resetCalibration c0)) = N
       \<and> earBaseline ((accumulateCalibration L ^^ N) (resetCalibration c0)) = Some (frame_ear L)
       \<and> marBaseline ((accumulateCalibration L ^^ N) (resetCalibration c0)) = Some (frame_mar L)
       \<and> resetCalibration ((accumulateCalibration L ^^ N) (resetCalibration c0))
           = \<lparr>earBaseline = None, marBaseline = None, calibrationSamples = 0\<rparr>
       \<and> getCurrentEARThreshold
           (resetCalibration ((accumulateCalibration L ^^ N) (resetCalibration c0))) = Fin 0.41
       \<and> getCurrentMARThreshold
           (resetCalibration ((accumulateCalibration L ^^ N) (resetCalibration c0))) = Fin 0.80
       \<and> calibrationSamples (accumulateCalibration L c) = calibrationSamples c + 1
       \<and> earBaseline (accumulateCalibration L c) =
           Some (case earBaseline c of
                   None \<Rightarrow> frame_ear L
                 | Some b \<Rightarrow>
                     jadd b (jdiv (jsub (frame_ear L) b) (Fin (real (calibrationSamples c + 1)))))
       \<and> marBaseline (accumulateCalibration L c) =
           Some (case marBaseline c of
                   None \<Rightarrow> frame_mar L
                 | Some b \<Rightarrow>
                     jadd b (jdiv (jsub (frame_mar L) b) (Fin (real (calibrationSamples c + 1)))))"
proof -
  obtain e m where em: "frame_ear L = Fin e" "frame_mar L = Fin m"
    using assms(1,2) isFinite_Fin by blast
  obtain k where N: "N = Suc k" using assms(3) by (cases N) simp_all
  have "(accumulateCalibration L ^^ N) (resetCalibration c0)
          = \<lparr>earBaseline = Some (Fin e), marBaseline = Some (Fin m), calibrationSamples = N\<rparr>"
    unfolding N resetCalibration_def by (rule accumulate_identical [OF em])
  moreover have "calibrationSamples (accumulateCalibration L c) = calibrationSamples c + 1"
    by (simp add: accumulateCalibration_alt em Let_def)
  moreover have "earBaseline (accumulateCalibration L c) =
           Some (case earBaseline c of
                   None \<Rightarrow> frame_ear L
                 | Some b \<Rightarrow>
                     jadd b (jdiv (jsub (frame_ear L) b) (Fin (real (calibrationSamples c + 1)))))"
    by (simp add: accumulateCalibration_alt running_mean_def em Let_def split: option.splits)
  moreover have "marBaseline (accumulateCalibration L c) =
           Some (case marBaseline c of
                   None \<Rightarrow> frame_mar L
                 | Some b \<Rightarrow>
                     jadd b (jdiv (jsub (frame_mar L) b) (Fin (real (calibrationSamples c + 1)))))"
    by (simp add: accumulateCalibration_alt running_mean_def em Let_def split: option.splits)
  ultimately show ?thesis
    by (simp add: em resetCalibration_def getCurrentEARThreshold_def getCurrentMARThreshold_def
        EAR_THRESHOLD_def MAR_THRESHOLD_def)
qed

theorem identical_samples_witness:
  "isFinite (frame_ear sample_frame) \<and> isFinite (frame_mar sample_frame) \<and> (1::nat) \<le> 7
   \<and> calibrationSamples ((accumulateCalibration sample_frame ^^ 7) (resetCalibration sample_cal)) = 7
   \<and> earBaseline ((accumulateCalibration sample_frame ^^ 7) (resetCalibration sample_cal)) = Some (Fin 0.45)
   \<and> marBaseline ((accumulateCalibration sample_frame ^^ 7) (resetCalibration sample_cal)) = Some (Fin 0.3)
   \<and> getCurrentEARThreshold
       (resetCalibration ((accumulateCalibration sample_frame ^^ 7) (resetCalibration sample_cal))) = Fin 0.41"
  using identical_samples [of sample_frame 7 sample_cal sample_cal]
  by (simp add: sample_frame_ear sample_frame_mar getCurrentEARThreshold_def EAR_THRESHOLD_def)

text \<open>
  C3. In every state of the calibration the program can reach, the eye threshold is
  \<open>eyeBaseline * 0.75\<close> when the sample count is at least 5 and 0.41 otherwise, and
  the mouth threshold is \<open>mouthBaseline * 1.40\<close> when the sample count is at least 5
  and 0.80 otherwise. The getters take the state and return a number: they write nothing.
\<close>

theorem threshold_provider:
  assumes "cal_reachable c"
  shows "(5 \<le> calibrationSamples c \<longrightarrow>
            (\<exists>e m. earBaseline c = Some (Fin e) \<and> marBaseline c = Some (Fin m) \<and>
               getCurrentEARThreshold c = Fin (e * 0.75) \<and>
               getCurrentMARThreshold c = Fin (m * 1.40)))
       \<and> (calibrationSamples c < 5 \<longrightarrow>
            getCurrentEARThreshold c = Fin 0.41 \<and> getCurrentMARThreshold c = Fin 0.80)"
proof (intro conjI impI)
  assume five: "5 \<le> calibrationSamples c"
  have inv: "cal_inv c" and fin: "baselines_finite c"
    using assms by (rule reachable_inv, rule reachable_finite)
  from inv five obtain a b where ab: "earBaseline c = Some a" "marBaseline c = Some b"
    by (auto simp: cal_inv_def)
  with fin obtain e m where "a = Fin e" "b = Fin m"
    by (auto simp: baselines_finite_def dest!: isFinite_Fin)
  with ab five show "\<exists>e m. earBaseline c = Some (Fin e) \<and> marBaseline c = Some (Fin m) \<and>
               getCurrentEARThreshold c = Fin (e * 0.75) \<and>
               getCurrentMARThreshold c = Fin (m * 1.40)"
    by (simp add: getCurrentEARThreshold_def getCurrentMARThreshold_def
        EAR_CALIBRATION_FACTOR_def MAR_CALIBRATION_FACTOR_def)
next
  assume "calibrationSamples c < 5"
  then show "getCurrentEARThreshold c = Fin 0.41" and "getCurrentMARThreshold c = Fin 0.80"
    by (simp_all add: getCurrentEARThreshold_def getCurrentMARThreshold_def
        EAR_THRESHOLD_def MAR_THRESHOLD_def split: option.splits)
qed

theorem threshold_provider_witness:
  "cal_reachable sample_cal \<and> 5 \<le> calibrationSamples sample_cal
   \<and> getCurrentEARThreshold sample_cal = Fin (0.45 * 0.75)
   \<and> getCurrentMARThreshold sample_cal = Fin (0.3 * 1.40)
   \<and> cal_reachable calibration_init \<and> calibrationSamples calibration_init < 5
   \<and> getCurrentEARThreshold calibration_init = Fin 0.41
   \<and> getCurrentMARThreshold calibration_init = Fin 0.80"
proof -
  have five: "5 \<le> calibrationSamples sample_cal" by (simp add: sample_cal_def)
  have zero: "calibrationSamples calibration_init < 5" by (simp add: calibration_init_def)
  obtain e m where em: "earBaseline sample_cal = Some (Fin e)" "marBaseline sample_cal = Some (Fin m)"
      "getCurrentEARThreshold sample_cal = Fin (e * 0.75)"
      "getCurrentMARThreshold sample_cal = Fin (m * 1.40)"
    using threshold_provider [OF sample_cal_reachable] five by blast
  have "e = 0.45" "m = 0.3" using em(1,2) by (simp_all add: sample_cal_def)
  with em(3,4) have cal: "getCurrentEARThreshold sample_cal = Fin (0.45 * 0.75)"
      "getCurrentMARThreshold sample_cal = Fin (0.3 * 1.40)" by simp_all
  have fallback: "getCurrentEARThreshold calibration_init = Fin 0.41"
      "getCurrentMARThreshold calibration_init = Fin 0.80"
    using threshold_provider [OF cal_start] zero by simp_all
  show ?thesis
    using five zero cal fallback sample_cal_reachable cal_start by simp
qed

text \<open>
  C10. The sample count is 0 exactly when \<open>earBaseline\<close> is null, exactly when
  \<open>marBaseline\<close> is null. This holds initially and is kept by \<^verbatim>\<open>accumulateCalibration\<close>
  and by \<^verbatim>\<open>resetCalibration\<close>, so it holds in every reachable state. Under it a count
  of at least 5 has both baselines set, and the getters decide on the count alone.
\<close>

theorem calibration_invariant:
  "cal_inv calibration_init
   \<and> (cal_inv c \<longrightarrow> cal_inv (accumulateCalibration L c) \<and> cal_inv (resetCalibration c))
   \<and> (cal_inv c \<and> 5 \<le> calibrationSamples c \<longrightarrow>
        earBaseline c \<noteq> None \<and> marBaseline c \<noteq> None)
   \<and> (cal_inv c \<longrightarrow>
        getCurrentEARThreshold c =
          (if 5 \<le> calibrationSamples c then jmul (the (earBaseline c)) EAR_CALIBRATION_FACTOR
           else EAR_THRESHOLD) \<and>
        getCurrentMARThreshold c =
          (if 5 \<le> calibrationSamples c then jmul (the (marBaseline c)) MAR_CALIBRATION_FACTOR
           else MAR_THRESHOLD))
   \<and> (cal_reachable c \<longrightarrow> cal_inv c)"
proof (intro conjI impI)
  show "cal_inv calibration_init" by (rule cal_inv_init)
next
  assume "cal_inv c"
  then show "cal_inv (accumulateCalibration L c)" by (rule cal_inv_accumulate)
next
  show "cal_inv (resetCalibration c)" by (rule cal_inv_reset)
next
  assume h: "cal_inv c \<and> 5 \<le> calibrationSamples c"
  then show "earBaseline c \<noteq> None" and "marBaseline c \<noteq> None"
    by (auto simp: cal_inv_def)
next
  assume h: "cal_inv c"
  then show "getCurrentEARThreshold c =
          (if 5 \<le> calibrationSamples c then jmul (the (earBaseline c)) EAR_CALIBRATION_FACTOR
           else EAR_THRESHOLD)"
    by (auto simp: cal_inv_def getCurrentEARThreshold_def split: option.splits)
  from h show "getCurrentMARThreshold c =
          (if 5 \<le> calibrationSamples c then jmul (the (marBaseline c)) MAR_CALIBRATION_FACTOR
           else MAR_THRESHOLD)"
    by (auto simp: cal_inv_def getCurrentMARThreshold_def split: option.splits)
next
  assume "cal_reachable c"
  then show "cal_inv c" by (rule reachable_inv)
qed

theorem calibration_invariant_witness:
  "cal_inv sample_cal \<and> 5 \<le> calibrationSamples sample_cal \<and> cal_reachable sample_cal
   \<and> cal_inv (accumulateCalibration sample_frame sample_cal)
   \<and> cal_inv (resetCalibration sample_cal)
   \<and> earBaseline sample_cal \<noteq> None \<and> marBaseline sample_cal \<noteq> None
   \<and> getCurrentEARThreshold sample_cal = jmul (Fin 0.45) EAR_CALIBRATION_FACTOR"
proof -
  have i: "cal_inv sample_cal" by (simp add: cal_inv_def sample_cal_def)
  have f: "5 \<le> calibrationSamples sample_cal" by (simp add: sample_cal_def)
  have e: "the (earBaseline sample_cal) = Fin 0.45" by (simp add: sample_cal_def)
  show ?thesis
    using calibration_invariant [of sample_cal sample_frame] i f e sample_cal_reachable
    by simp
qed


text \<open>
  C8. A frame with no detected face (no \<^verbatim>\<open>multiFaceLandmarks\<close>, or an empty one) emits
  \<open>{Inactive, Inactive, false}\<close> whatever the state, the phase and the clocks are, and
  leaves both start times, the calibration and the phase as they were.
\<close>

theorem no_face_frame:
  assumes "r = None \<or> r = Some []"
  shows "fst (onResults r d t st) = (''Inactive'', ''Inactive'', False)
       \<and> closedEyeStart (snd (onResults r d t st)) = closedEyeStart st
       \<and> openMouthStart (snd (onResults r d t st)) = openMouthStart st
       \<and> cal (snd (onResults r d t st)) = cal st
       \<and> calibrating (snd (onResults r d t st)) = calibrating st
       \<and> calibrationStart (snd (onResults r d t st)) = calibrationStart st"
  by (simp add: onResults_noface [OF assms])

theorem no_face_frame_witness:
  "fst (onResults (Some []) 0 5000 sample_state) = (''Inactive'', ''Inactive'', False)
   \<and> closedEyeStart (snd (onResults (Some []) 0 5000 sample_state)) = Some 1000
   \<and> openMouthStart (snd (onResults (Some []) 0 5000 sample_state)) = None
   \<and> cal (snd (onResults (Some []) 0 5000 sample_state)) = cal sample_state
   \<and> fst (onResults None 0 5000 (startDetection 0 sample_state)) = (''Inactive'', ''Inactive'', False)
   \<and> calibrating (snd (onResults None 0 5000 (startDetection 0 sample_state)))"
  using no_face_frame [of "Some []" 0 5000 sample_state]
    no_face_frame [of None 0 5000 "startDetection 0 sample_state"]
  by (simp add: sample_state_def startDetection_def)

text \<open>
  C1. In the detection phase, for each signal on its own (eyes: the average eye ratio
  is below the eye threshold; mouth: the mouth ratio is above the mouth threshold): a
  true condition with no start time sets it to the current time, and keeps a start
  time that is set; a false condition clears it. The signal is Drowsy (Yawning) exactly
  when its start time is set and \<open>now - start > 3000\<close>, otherwise Active, and
  \<open>alertRequired\<close> is the disjunction of the two.
\<close>

theorem temporal_debounce:
  assumes "\<not> calibrating st"
      and "onResults (Some (L # faces)) d now st = ((eyeStatus, mouthStatus, alertRequired), st')"
  shows "(jlt (frame_ear L) (getCurrentEARThreshold (cal st)) \<and> closedEyeStart st = None
            \<longrightarrow> closedEyeStart st' = Some now)
       \<and> (jlt (frame_ear L) (getCurrentEARThreshold (cal st)) \<and> closedEyeStart st \<noteq> None
            \<longrightarrow> closedEyeStart st' = closedEyeStart st)
       \<and> (\<not> jlt (frame_ear L) (getCurrentEARThreshold (cal st)) \<longrightarrow> closedEyeStart st' = None)
       \<and> (jgt (frame_mar L) (getCurrentMARThreshold (cal st)) \<and> openMouthStart st = None
            \<longrightarrow> openMouthStart st' = Some now)
       \<and> (jgt (frame_mar L) (getCurrentMARThreshold (cal st)) \<and> openMouthStart st \<noteq> None
            \<longrightarrow> openMouthStart st' = openMouthStart st)
       \<and> (\<not> jgt (frame_mar L) (getCurrentMARThreshold (cal st)) \<longrightarrow> openMouthStart st' = None)
       \<and> (eyeStatus = ''Drowsy'' \<longleftrightarrow> (\<exists>t0. closedEyeStart st' = Some t0 \<and> now - t0 > 3000))
       \<and> (eyeStatus \<noteq> ''Drowsy'' \<longrightarrow> eyeStatus = ''Active'')
       \<and> (mouthStatus = ''Yawning'' \<longleftrightarrow> (\<exists>t0. openMouthStart st' = Some t0 \<and> now - t0 > 3000))
       \<and> (mouthStatus \<noteq> ''Yawning'' \<longrightarrow> mouthStatus = ''Active'')
       \<and> (alertRequired \<longleftrightarrow> eyeStatus = ''Drowsy'' \<or> mouthStatus = ''Yawning'')"
proof -
  note o = detect_outcome [OF assms]
  have drowsy: "eyeStatus = ''Drowsy'' \<longleftrightarrow> (\<exists>t0. closedEyeStart st' = Some t0 \<and> now - t0 > 3000)"
    by (cases "closedEyeStart st'") (simp_all add: o(3))
  have eye_else: "eyeStatus = ''Active''" if "eyeStatus \<noteq> ''Drowsy''"
    using that by (simp add: o(3) split: if_splits)
  have yawning: "mouthStatus = ''Yawning'' \<longleftrightarrow> (\<exists>t0. openMouthStart st' = Some t0 \<and> now - t0 > 3000)"
    by (cases "openMouthStart st'") (simp_all add: o(4))
  have mouth_else: "mouthStatus = ''Active''" if "mouthStatus \<noteq> ''Yawning''"
    using that by (simp add: o(4) split: if_splits)
  have alert: "alertRequired \<longleftrightarrow> eyeStatus = ''Drowsy'' \<or> mouthStatus = ''Yawning''"
    unfolding drowsy yawning
    by (cases "closedEyeStart st'"; cases "openMouthStart st'") (simp_all add: o(5))
  show ?thesis
  proof (intro conjI impI)
    show "eyeStatus = ''Drowsy'' \<longleftrightarrow> (\<exists>t0. closedEyeStart st' = Some t0 \<and> now - t0 > 3000)"
      by (rule drowsy)
    show "mouthStatus = ''Yawning'' \<longleftrightarrow> (\<exists>t0. openMouthStart st' = Some t0 \<and> now - t0 > 3000)"
      by (rule yawning)
    show "alertRequired \<longleftrightarrow> eyeStatus = ''Drowsy'' \<or> mouthStatus = ''Yawning''"
      by (rule alert)
    show "eyeStatus = ''Active''" if "eyeStatus \<noteq> ''Drowsy''"
      using that by (rule eye_else)
    show "mouthStatus = ''Active''" if "mouthStatus \<noteq> ''Yawning''"
      using that by (rule mouth_else)
  qed (auto simp: o(1) o(2))
qed

theorem temporal_debounce_witness:
  "\<not> calibrating sample_state
   \<and> onResults (Some [sample_frame]) 0 5000 sample_state =
       ((''Drowsy'', ''Active'', True),
        sample_state\<lparr>isProcessing := False, openMouthStart := Some 5000\<rparr>)
   \<and> jlt (frame_ear sample_frame) (getCurrentEARThreshold (cal sample_state))
   \<and> jgt (frame_mar sample_frame) (getCurrentMARThreshold (cal sample_state))
   \<and> closedEyeStart sample_state = Some 1000 \<and> openMouthStart sample_state = None
   \<and> closedEyeStart (sample_state\<lparr>isProcessing := False, openMouthStart := Some 5000\<rparr>) = Some 1000
   \<and> openMouthStart (sample_state\<lparr>isProcessing := False, openMouthStart := Some 5000\<rparr>) = Some 5000
   \<and> \<not> jlt (frame_ear flat_frame) (getCurrentEARThreshold (cal sample_state))
   \<and> onResults (Some [flat_frame]) 0 5000 sample_state =
       ((''Active'', ''Active'', False), sample_state\<lparr>isProcessing := False, closedEyeStart := None\<rparr>)
   \<and> closedEyeStart (sample_state\<lparr>isProcessing := False, closedEyeStart := None\<rparr>) = None
   \<and> onResults (Some [sample_frame]) 0 5000
         (sample_state\<lparr>closedEyeStart := None, openMouthStart := Some 1000\<rparr>) =
       ((''Active'', ''Yawning'', True),
        sample_state\<lparr>isProcessing := False, closedEyeStart := Some 5000,
          openMouthStart := Some 1000\<rparr>)"
proof -
  have n2: "\<not> calibrating (sample_state\<lparr>closedEyeStart := None, openMouthStart := Some 1000\<rparr>)"
    by (simp add: sample_state_thresholds)
  have n: "\<not> calibrating sample_state" by (rule sample_state_thresholds)
  have a: "jlt (frame_ear sample_frame) (getCurrentEARThreshold (cal sample_state))"
          "jgt (frame_mar sample_frame) (getCurrentMARThreshold (cal sample_state))"
          "\<not> jlt (frame_ear flat_frame) (getCurrentEARThreshold (cal sample_state))"
    by (simp_all add: sample_state_thresholds sample_frame_ear sample_frame_mar flat_frame_ear jgt_def)
  have b: "closedEyeStart sample_state = Some 1000" "openMouthStart sample_state = None"
    by (simp_all add: sample_state_def)
  show ?thesis
    using temporal_debounce [OF n sample_step] temporal_debounce [OF n flat_step]
      temporal_debounce [OF n2 sample_step2] n a b sample_step flat_step sample_step2
    by simp
qed

text \<open>
  C7, as amended. In the detection phase a non-finite average eye ratio makes the eyes
  Active and clears their start time, and a NaN mouth ratio makes the mouth Active and
  clears its start time: the condition of that signal is false, the status is Active,
  not Inactive. \<^verbatim>\<open>analyzeFrame\<close> reports \<open>isEyesClosed\<close> and \<open>isYawn\<close> false for every
  non-finite ratio. No step raises.
\<close>

theorem nonfinite_metric_is_active:
  assumes "\<not> calibrating st"
      and "onResults (Some (L # faces)) d now st = ((eyeStatus, mouthStatus, alertRequired), st')"
  shows "(\<not> isFinite (frame_ear L) \<longrightarrow> eyeStatus = ''Active'' \<and> closedEyeStart st' = None)
       \<and> (frame_mar L = NaN \<longrightarrow> mouthStatus = ''Active'' \<and> openMouthStart st' = None)
       \<and> (\<not> isFinite (frame_ear L) \<and> frame_mar L = NaN \<longrightarrow> \<not> alertRequired)
       \<and> (\<not> isFinite (calculateEAR L LEFT_EYE_POINTS) \<longrightarrow> \<not> isEyesClosed (analyzeFrame L c))
       \<and> (\<not> isFinite (calculateMAR L MOUTH_POINTS) \<longrightarrow> \<not> isYawn (analyzeFrame L c))"
proof -
  note o = detect_outcome [OF assms]
  have e: "closedEyeStart st' = None" if "\<not> isFinite (frame_ear L)"
    using nonfinite_not_less [OF nonneg_frame_ear that] by (simp add: o(1))
  have m: "openMouthStart st' = None" if "frame_mar L = NaN"
    using that by (simp add: o(2) NaN_not_greater)
  have es: "eyeStatus = ''Active''" if "closedEyeStart st' = None"
    using o(3) that by simp
  have ms: "mouthStatus = ''Active''" if "openMouthStart st' = None"
    using o(4) that by simp
  have al: "\<not> alertRequired" if "closedEyeStart st' = None" "openMouthStart st' = None"
    using o(5) that by simp
  have a: "(\<not> isFinite (calculateEAR L LEFT_EYE_POINTS) \<longrightarrow> \<not> isEyesClosed (analyzeFrame L c))
       \<and> (\<not> isFinite (calculateMAR L MOUTH_POINTS) \<longrightarrow> \<not> isYawn (analyzeFrame L c))"
    by (simp add: analyzeFrame_def Let_def)
  show ?thesis using e m es ms al a by blast
qed

theorem nonfinite_metric_is_active_witness:
  "\<not> calibrating sample_state
   \<and> \<not> isFinite (frame_ear flat_frame) \<and> frame_mar flat_frame = NaN
   \<and> \<not> isFinite (calculateEAR flat_frame LEFT_EYE_POINTS)
   \<and> \<not> isFinite (calculateMAR flat_frame MOUTH_POINTS)
   \<and> onResults (Some [flat_frame]) 0 5000 sample_state =
       ((''Active'', ''Active'', False), sample_state\<lparr>isProcessing := False, closedEyeStart := None\<rparr>)
   \<and> closedEyeStart (sample_state\<lparr>isProcessing := False, closedEyeStart := None\<rparr>) = None
   \<and> openMouthStart (sample_state\<lparr>isProcessing := False, closedEyeStart := None\<rparr>) = None
   \<and> \<not> isEyesClosed (analyzeFrame flat_frame sample_cal)
   \<and> \<not> isYawn (analyzeFrame flat_frame sample_cal)"
proof -
  have n: "\<not> calibrating sample_state" by (rule sample_state_thresholds)
  have f: "\<not> isFinite (frame_ear flat_frame)" "frame_mar flat_frame = NaN"
          "\<not> isFinite (calculateEAR flat_frame LEFT_EYE_POINTS)"
          "\<not> isFinite (calculateMAR flat_frame MOUTH_POINTS)"
    by (simp_all add: flat_frame_ear flat_frame_mar calculateEAR_def calculateMAR_def flat_left flat_mar)
  show ?thesis
    using nonfinite_metric_is_active [OF n flat_step, of sample_cal] n f flat_step
    by simp
qed

text \<open>
  C7 as stated fails: in the detection phase the degenerate frame has non-finite ratios
  and both statuses are Active, not Inactive.
\<close>

theorem nonfinite_metric_not_inactive:
  "\<not> calibrating sample_state
   \<and> \<not> isFinite (frame_ear flat_frame) \<and> \<not> isFinite (frame_mar flat_frame)
   \<and> fst (fst (onResults (Some [flat_frame]) 0 5000 sample_state)) \<noteq> ''Inactive''
   \<and> fst (snd (fst (onResults (Some [flat_frame]) 0 5000 sample_state))) \<noteq> ''Inactive''"
  by (simp add: flat_step flat_frame_ear flat_frame_mar sample_state_thresholds)

text \<open>
  C9, as amended. With a clock that does not run backwards, every face frame processed
  at most 2000 ms after the session start is fed to the calibration and emits
  \<open>{Calibrating, Calibrating, false}\<close>, and the calibration phase goes on after it. Once
  a face frame has been processed more than 2000 ms after the start, the phase is
  detection for good: every later face frame is handled by detection, emits no
  Calibrating and leaves the calibration alone.
\<close>

theorem calibration_latch:
  "(calibrating st \<and> d - calibrationStart st \<le> 2000 \<longrightarrow>
      fst (onResults (Some (L # faces)) d t st) = (''Calibrating'', ''Calibrating'', False)
      \<and> cal (snd (onResults (Some (L # faces)) d t st)) = accumulateCalibration L (cal st)
      \<and> calibrating (snd (onResults (Some (L # faces)) d t st)))
   \<and> ((\<forall>ev\<in>set evs. fst (snd ev) \<le> d) \<and> d - t0 \<le> 2000 \<longrightarrow>
        fst (onResults (Some (L # faces)) d t (run (startDetection t0 s) evs))
          = (''Calibrating'', ''Calibrating'', False)
        \<and> cal (snd (onResults (Some (L # faces)) d t (run (startDetection t0 s) evs)))
          = accumulateCalibration L (cal (run (startDetection t0 s) evs)))
   \<and> (\<not> calibrating st \<longrightarrow>
        fst (fst (onResults (Some (L # faces)) d t st)) \<noteq> ''Calibrating''
        \<and> cal (snd (onResults (Some (L # faces)) d t st)) = cal st
        \<and> \<not> calibrating (run (snd (onResults (Some (L # faces)) d t st)) evs))
   \<and> (calibrating st \<and> d - calibrationStart st > 2000 \<longrightarrow>
        \<not> calibrating (run (snd (onResults (Some (L # faces)) d t st)) evs))"
proof (intro conjI impI)
  assume h: "calibrating st \<and> d - calibrationStart st \<le> 2000"
  then have c: "calibrating st" by simp
  show "fst (onResults (Some (L # faces)) d t st) = (''Calibrating'', ''Calibrating'', False)"
    and "cal (snd (onResults (Some (L # faces)) d t st)) = accumulateCalibration L (cal st)"
    by (simp_all add: onResults_calibrating [OF c])
  show "calibrating (snd (onResults (Some (L # faces)) d t st))"
    using h by (simp add: onResults_calibrating [OF c])
next
  assume h: "(\<forall>ev\<in>set evs. fst (snd ev) \<le> d) \<and> d - t0 \<le> 2000"
  have c: "calibrating (run (startDetection t0 s) evs)"
  proof (rule run_keeps_calibrating)
    show "calibrating (startDetection t0 s)" by (rule startDetection_fields)
    show "\<forall>ev\<in>set evs. fst (snd ev) - calibrationStart (startDetection t0 s) \<le> 2000"
      using h by (fastforce simp: startDetection_fields)
  qed
  show "fst (onResults (Some (L # faces)) d t (run (startDetection t0 s) evs))
          = (''Calibrating'', ''Calibrating'', False)"
    and "cal (snd (onResults (Some (L # faces)) d t (run (startDetection t0 s) evs)))
          = accumulateCalibration L (cal (run (startDetection t0 s) evs))"
    by (simp_all add: onResults_calibrating [OF c])
next
  assume n: "\<not> calibrating st"
  show "fst (fst (onResults (Some (L # faces)) d t st)) \<noteq> ''Calibrating''"
    and "cal (snd (onResults (Some (L # faces)) d t st)) = cal st"
    by (simp_all add: onResults_detect [OF n] Let_def)
  show "\<not> calibrating (run (snd (onResults (Some (L # faces)) d t st)) evs)"
    by (intro run_stays_detecting onResults_stays_detecting n)
next
  assume h: "calibrating st \<and> d - calibrationStart st > 2000"
  then have "\<not> calibrating (snd (onResults (Some (L # faces)) d t st))"
    by (simp add: onResults_calibrating)
  then show "\<not> calibrating (run (snd (onResults (Some (L # faces)) d t st)) evs)"
    by (rule run_stays_detecting)
qed

theorem calibration_latch_witness:
  "calibrating (startDetection 0 sample_state)
   \<and> (1000::int) - calibrationStart (startDetection 0 sample_state) \<le> 2000
   \<and> fst (onResults (Some [sample_frame]) 1000 0 (startDetection 0 sample_state))
       = (''Calibrating'', ''Calibrating'', False)
   \<and> calibrating (snd (onResults (Some [sample_frame]) 1000 0 (startDetection 0 sample_state)))
   \<and> fst (onResults (Some [sample_frame]) 1000 0
         (run (startDetection 0 sample_state) [(Some [sample_frame], 100, 0), (None, 500, 0)]))
       = (''Calibrating'', ''Calibrating'', False)
   \<and> 5000 - calibrationStart (startDetection 0 sample_state) > 2000
   \<and> \<not> calibrating (run (snd (onResults (Some [sample_frame]) 5000 0 (startDetection 0 sample_state)))
         [(Some [sample_frame], 5033, 33)])
   \<and> \<not> calibrating sample_state
   \<and> fst (fst (onResults (Some [sample_frame]) 0 5000 sample_state)) \<noteq> ''Calibrating''
   \<and> cal (snd (onResults (Some [sample_frame]) 0 5000 sample_state)) = cal sample_state"
proof -
  have s: "calibrating (startDetection 0 sample_state)"
          "calibrationStart (startDetection 0 sample_state) = 0"
    by (rule startDetection_fields)+
  have n: "\<not> calibrating sample_state" by (rule sample_state_thresholds)
  have q: "\<forall>ev\<in>set [(Some [sample_frame], 100, 0), (None :: results, 500, 0::real)].
             fst (snd ev) \<le> (1000::int)"
    by simp
  show ?thesis
    using calibration_latch [of "startDetection 0 sample_state" 1000 sample_frame "[]" 0]
      calibration_latch [of _ 1000 sample_frame "[]" 0
        "[(Some [sample_frame], 100, 0), (None, 500, 0)]" 0 sample_state]
      calibration_latch [of "startDetection 0 sample_state" 5000 sample_frame "[]" 0
        "[(Some [sample_frame], 5033, 33)]"]
      calibration_latch [of sample_state 0 sample_frame "[]" 5000 "[]"]
      s n q
    by simp
qed

text \<open>
  C9 as stated fails at the boundary: a face frame processed exactly 2000 ms after the
  session start is fed to the calibration, emits Calibrating and leaves the phase on
  calibration, since the test is \<open>> 2000\<close>.
\<close>

theorem boundary_frame_still_calibrates:
  "(2000::int) \<le> 2000 - calibrationStart (startDetection 0 sample_state)
   \<and> fst (onResults (Some [sample_frame]) 2000 0 (startDetection 0 sample_state))
       = (''Calibrating'', ''Calibrating'', False)
   \<and> calibrationSamples (cal (startDetection 0 sample_state)) = 0
   \<and> calibrationSamples (cal (snd (onResults (Some [sample_frame]) 2000 0
         (startDetection 0 sample_state)))) = 1
   \<and> calibrating (snd (onResults (Some [sample_frame]) 2000 0 (startDetection 0 sample_state)))"
  by (simp add: boundary_first_frame) (simp add: startDetection_def resetCalibration_def)

end
